theory Spec2Isabelle
  imports Complex_Main
begin

section \<open>Gender classification API: person-count filter and request handlers\<close>

text \<open>
  A shallow embedding of \<^verbatim>\<open>api/app.py\<close>. The two neural networks, the image codec
  and the label table of the classifier are collaborators outside the repository; they are
  fields of an environment record and every statement holds for all of them. Python floats
  are read as exact rationals, Python ints as \<open>int\<close> (and as \<open>nat\<close> for the counter
  that starts at 0 and is only incremented), Python strings as ASCII \<open>string\<close>s.
\<close>

subsection \<open>Exceptions, strings and numbers\<close>

datatype exn =
    ZeroDivisionError
  | KeyError nat
  | IndexError nat nat
  | AttributeError string
  | Exception string

definition digit_char :: "nat \<Rightarrow> char" where
  "digit_char d = ''0123456789'' ! d"

text \<open>\<^verbatim>\<open>str(n)\<close> and \<^verbatim>\<open>f"{n}"\<close> for a non-negative int: its decimal digits.\<close>

fun str_nat :: "nat \<Rightarrow> string" where
  "str_nat n = (if n < 10 then [digit_char n] else str_nat (n div 10) @ [digit_char (n mod 10)])"

declare str_nat.simps [simp del]

text \<open>\<^verbatim>\<open>str(e)\<close>: the message of an exception.\<close>

fun str_exn :: "exn \<Rightarrow> string" where
  "str_exn ZeroDivisionError = ''division by zero''"
| "str_exn (KeyError k) = str_nat k"
| "str_exn (IndexError i n) =
     ''index '' @ str_nat i @ '' is out of bounds for dimension 0 with size '' @ str_nat n"
| "str_exn (AttributeError msg) = msg"
| "str_exn (Exception msg) = msg"

definition bind_exn :: "exn + 'a \<Rightarrow> ('a \<Rightarrow> exn + 'b) \<Rightarrow> exn + 'b" where
  "bind_exn m f = (case m of Inl e \<Rightarrow> Inl e | Inr x \<Rightarrow> f x)"

text \<open>\<^verbatim>\<open>c.lower()\<close> on one ASCII character.\<close>

definition lower_char :: "char \<Rightarrow> char" where
  "lower_char c =
     (let n = (of_char c :: nat) in if 65 \<le> n \<and> n \<le> 90 then char_of (n + 32) else c)"

definition lower :: "string \<Rightarrow> string" where
  "lower s = map lower_char s"

text \<open>\<^verbatim>\<open>s.startswith(p)\<close>.\<close>

fun startswith :: "string \<Rightarrow> string \<Rightarrow> bool" where
  "startswith s [] = True"
| "startswith [] (p # ps) = False"
| "startswith (c # s) (p # ps) = (c = p \<and> startswith s ps)"

text \<open>\<^verbatim>\<open>sub in s\<close> on strings: \<open>sub\<close> occurs in \<open>s\<close> as a contiguous block.\<close>

fun str_in :: "string \<Rightarrow> string \<Rightarrow> bool" where
  "str_in sub [] = (sub = [])"
| "str_in sub (c # s) = (startswith (c # s) sub \<or> str_in sub s)"

text \<open>\<^verbatim>\<open>a / b\<close> on two ints: true division, which raises on a zero divisor.\<close>

definition true_div :: "int \<Rightarrow> int \<Rightarrow> exn + rat" where
  "true_div a b = (if b = 0 then Inl ZeroDivisionError else Inr (of_int a / of_int b))"

subsection \<open>Data\<close>

record bounding_box =
  xmin :: int
  ymin :: int
  xmax :: int
  ymax :: int

record detection =
  label :: string
  score :: rat
  box :: bounding_box

record image =
  img_size :: "int \<times> int"
  pixels :: "nat list"

text \<open>
  An uploaded file. The framework's \<^verbatim>\<open>content_type\<close> is the part's Content-Type header
  and is \<^verbatim>\<open>None\<close> when the part has none.
\<close>

record upload_file =
  filename :: string
  content_type :: "string option"
  contents :: "nat list"

datatype log_record = LogError string

datatype json =
    JNull
  | JString string
  | JInt int
  | JFloat rat
  | JArray "json list"
  | JObject "(string \<times> json) list"

text \<open>
  What leaves a handler when it does not return: the \<^verbatim>\<open>HTTPException\<close> it raised
  itself, or any other exception that nothing caught.
\<close>

datatype handler_exception = HTTPException nat string | Uncaught exn

text \<open>
  \<^verbatim>\<open>file.content_type.startswith(prefix)\<close>: on \<^verbatim>\<open>None\<close> the attribute access raises
  \<^verbatim>\<open>AttributeError: 'NoneType' object has no attribute 'startswith'\<close>.
\<close>

definition none_has_no_attribute :: "string \<Rightarrow> exn" where
  "none_has_no_attribute name =
     AttributeError ([CHR 0x27] @ ''NoneType'' @ [CHR 0x27] @ '' object has no attribute ''
                       @ [CHR 0x27] @ name @ [CHR 0x27])"

definition content_type_startswith :: "upload_file \<Rightarrow> string \<Rightarrow> exn + bool" where
  "content_type_startswith file prefix =
     (case content_type file of
        None \<Rightarrow> Inl (none_has_no_attribute ''startswith'')
      | Some ct \<Rightarrow> Inr (startswith ct prefix))"

text \<open>
  The module globals \<^verbatim>\<open>person_detector\<close>, \<^verbatim>\<open>processor\<close> and \<^verbatim>\<open>model\<close>,
  and the decoder \<^verbatim>\<open>Image.open(...).convert('RGB')\<close>. \<open>classifier\<close> stands for lines
  188 to 192, processor, model and softmax together: it yields the row \<^verbatim>\<open>predictions[0]\<close>
  of the one-image batch. \<open>id2label\<close> is \<^verbatim>\<open>model.config.id2label\<close>.
\<close>

record env =
  person_detector :: "image \<Rightarrow> exn + detection list"
  classifier :: "image \<Rightarrow> exn + rat list"
  id2label :: "nat \<rightharpoonup> string"
  image_open :: "nat list \<Rightarrow> exn + image"

subsection \<open>The person-count filter\<close>

text \<open>One iteration of the loop of \<^verbatim>\<open>count_people_in_image\<close> (lines 103 to 117).\<close>

definition count_step :: "int \<Rightarrow> int \<Rightarrow> detection \<Rightarrow> nat \<Rightarrow> exn + nat" where
  "count_step img_width img_height d valid_people =
     (if str_in ''person'' (lower (label d)) then
        (let det_width = xmax (box d) - xmin (box d);
             det_height = ymax (box d) - ymin (box d)
         in bind_exn (true_div (det_width * det_height) (img_width * img_height))
              (\<lambda>relative_area.
                 bind_exn (true_div det_height img_height)
                   (\<lambda>relative_height.
                      if score d > 7 / 10 \<and> relative_area > 1 / 20 \<and> relative_height > 1 / 5
                      then Inr (valid_people + 1)
                      else Inr valid_people)))
      else Inr valid_people)"

fun count_loop :: "int \<Rightarrow> int \<Rightarrow> detection list \<Rightarrow> nat \<Rightarrow> exn + nat" where
  "count_loop img_width img_height [] valid_people = Inr valid_people"
| "count_loop img_width img_height (d # detections) valid_people =
     bind_exn (count_step img_width img_height d valid_people)
       (count_loop img_width img_height detections)"

text \<open>The body of the \<^verbatim>\<open>try\<close> (lines 96 to 119).\<close>

definition count_people_try :: "env \<Rightarrow> image \<Rightarrow> exn + nat" where
  "count_people_try e img =
     bind_exn (person_detector e img)
       (\<lambda>detections. case img_size img of
            (img_width, img_height) \<Rightarrow> count_loop img_width img_height detections 0)"

text \<open>The whole function: the \<^verbatim>\<open>except\<close> branch logs and returns 1.\<close>

definition count_people_in_image ::
    "env \<Rightarrow> image \<Rightarrow> log_record list \<Rightarrow> nat \<times> log_record list" where
  "count_people_in_image e img lg =
     (case count_people_try e img of
        Inr valid_people \<Rightarrow> (valid_people, lg)
      | Inl ex \<Rightarrow> (1, lg @ [LogError (''Error in person detection: '' @ str_exn ex)]))"

subsection \<open>Classification (lines 188 to 196 and 251 to 259)\<close>

text \<open>
  \<^verbatim>\<open>predictions.max()\<close> and \<^verbatim>\<open>predictions.argmax()\<close> of the tensor library, on the
  single row: the largest entry and the position of its first occurrence. Both raise on an
  empty tensor; the messages here are the library's, shortened to their first sentence.
\<close>

definition torch_max :: "rat list \<Rightarrow> exn + rat" where
  "torch_max ps =
     (case ps of
        [] \<Rightarrow> Inl (Exception ''max(): Expected reduction dim to be specified for input.numel() == 0.'')
      | p # qs \<Rightarrow> Inr (fold max qs p))"

fun first_index :: "rat list \<Rightarrow> rat \<Rightarrow> nat" where
  "first_index [] m = 0"
| "first_index (p # ps) m = (if p = m then 0 else Suc (first_index ps m))"

definition torch_argmax :: "rat list \<Rightarrow> exn + nat" where
  "torch_argmax ps =
     (case ps of
        [] \<Rightarrow> Inl (Exception ''argmax(): Expected reduction dim to be specified for input.numel() == 0.'')
      | p # qs \<Rightarrow> Inr (first_index ps (fold max qs p)))"

text \<open>\<^verbatim>\<open>predictions[0][i]\<close>.\<close>

definition tensor_index :: "rat list \<Rightarrow> nat \<Rightarrow> exn + rat" where
  "tensor_index ps i = (if i < length ps then Inr (ps ! i) else Inl (IndexError i (length ps)))"

text \<open>\<^verbatim>\<open>model.config.id2label[k]\<close>.\<close>

definition dict_get :: "(nat \<rightharpoonup> string) \<Rightarrow> nat \<Rightarrow> exn + string" where
  "dict_get m k = (case m k of None \<Rightarrow> Inl (KeyError k) | Some v \<Rightarrow> Inr v)"

text \<open>
  The prediction both handlers make: the row of probabilities, the predicted label and the
  confidence.
\<close>

definition make_prediction :: "env \<Rightarrow> image \<Rightarrow> exn + (rat list \<times> string \<times> rat)" where
  "make_prediction e img =
     bind_exn (classifier e img)
       (\<lambda>predictions.
          bind_exn (torch_argmax predictions)
            (\<lambda>predicted_class_id.
               bind_exn (torch_max predictions)
                 (\<lambda>confidence.
                    bind_exn (dict_get (id2label e) predicted_class_id)
                      (\<lambda>predicted_label. Inr (predictions, predicted_label, confidence)))))"

subsection \<open>\<^verbatim>\<open>POST /predict\<close>\<close>

text \<open>The body of the \<^verbatim>\<open>try\<close> of \<^verbatim>\<open>predict_gender\<close> (lines 166 to 207).\<close>

definition predict_gender_try ::
    "env \<Rightarrow> upload_file \<Rightarrow> log_record list \<Rightarrow> (exn + json) \<times> log_record list" where
  "predict_gender_try e file lg =
     (case image_open e (contents file) of
        Inl ex \<Rightarrow> (Inl ex, lg)
      | Inr img \<Rightarrow>
          (case count_people_in_image e img lg of
             (person_count, lg') \<Rightarrow>
               if person_count = 0 then
                 (Inr (JObject
                    [(''error'', JString ''No person detected in image''),
                     (''person_count'', JInt (int person_count)),
                     (''prediction'', JNull),
                     (''confidence'', JFloat 0)]), lg')
               else if person_count > 1 then
                 (Inr (JObject
                    [(''error'', JString (''Multiple people detected ('' @ str_nat person_count
                        @ '' people). Please use single-person images.'')),
                     (''person_count'', JInt (int person_count)),
                     (''prediction'', JNull),
                     (''confidence'', JFloat 0)]), lg')
               else
                 (bind_exn (make_prediction e img)
                    (\<lambda>(predictions, predicted_label, confidence).
                       bind_exn (tensor_index predictions 0)
                         (\<lambda>male.
                            bind_exn (tensor_index predictions 1)
                              (\<lambda>female.
                                 Inr (JObject
                                   [(''prediction'', JString predicted_label),
                                    (''confidence'', JFloat confidence),
                                    (''person_count'', JInt (int person_count)),
                                    (''probabilities'',
                                       JObject [(''male'', JFloat male), (''female'', JFloat female)]),
                                    (''error'', JNull)])))), lg')))"

definition predict_gender ::
    "env \<Rightarrow> upload_file \<Rightarrow> log_record list \<Rightarrow> (handler_exception + json) \<times> log_record list" where
  "predict_gender e file lg =
     (case content_type_startswith file ''image/'' of
        Inl ex \<Rightarrow> (Inl (Uncaught ex), lg)
      | Inr is_image \<Rightarrow>
          if \<not> is_image then
            (Inl (HTTPException 400 ''File must be an image''), lg)
          else
            (case predict_gender_try e file lg of
               (Inr response, lg') \<Rightarrow> (Inr response, lg')
             | (Inl ex, lg') \<Rightarrow>
                 (Inl (HTTPException 500 (''Prediction failed: '' @ str_exn ex)),
                  lg' @ [LogError (''Error in prediction: '' @ str_exn ex)])))"

subsection \<open>\<^verbatim>\<open>POST /predict-batch\<close>\<close>

text \<open>The body of the \<^verbatim>\<open>try\<close> inside the loop (lines 225 to 267): the entry appended.\<close>

definition batch_item_try ::
    "env \<Rightarrow> upload_file \<Rightarrow> log_record list \<Rightarrow> (exn + json) \<times> log_record list" where
  "batch_item_try e file lg =
     (case content_type_startswith file ''image/'' of
        Inl ex \<Rightarrow> (Inl ex, lg)
      | Inr is_image \<Rightarrow>
          if \<not> is_image then
            (Inr (JObject
               [(''filename'', JString (filename file)),
                (''error'', JString ''File must be an image''),
                (''prediction'', JNull),
                (''confidence'', JFloat 0)]), lg)
          else
            (case image_open e (contents file) of
               Inl ex \<Rightarrow> (Inl ex, lg)
             | Inr img \<Rightarrow>
                 (case count_people_in_image e img lg of
                    (person_count, lg') \<Rightarrow>
                      if person_count \<noteq> 1 then
                        (Inr (JObject
                           [(''filename'', JString (filename file)),
                            (''error'', JString (''Expected 1 person, found '' @ str_nat person_count)),
                            (''person_count'', JInt (int person_count)),
                            (''prediction'', JNull),
                            (''confidence'', JFloat 0)]), lg')
                      else
                        (bind_exn (make_prediction e img)
                           (\<lambda>(predictions, predicted_label, confidence).
                              Inr (JObject
                                [(''filename'', JString (filename file)),
                                 (''prediction'', JString predicted_label),
                                 (''confidence'', JFloat confidence),
                                 (''person_count'', JInt (int person_count)),
                                 (''error'', JNull)])), lg'))))"

text \<open>One iteration with its \<^verbatim>\<open>except\<close> branch (lines 269 to 275).\<close>

definition batch_item ::
    "env \<Rightarrow> upload_file \<Rightarrow> log_record list \<Rightarrow> json \<times> log_record list" where
  "batch_item e file lg =
     (case batch_item_try e file lg of
        (Inr entry, lg') \<Rightarrow> (entry, lg')
      | (Inl ex, lg') \<Rightarrow>
          (JObject
             [(''filename'', JString (filename file)),
              (''error'', JString (str_exn ex)),
              (''prediction'', JNull),
              (''confidence'', JFloat 0)], lg'))"

fun batch_loop ::
    "env \<Rightarrow> upload_file list \<Rightarrow> json list \<Rightarrow> log_record list \<Rightarrow> json list \<times> log_record list"
where
  "batch_loop e [] results lg = (results, lg)"
| "batch_loop e (file # files) results lg =
     (case batch_item e file lg of
        (entry, lg') \<Rightarrow> batch_loop e files (results @ [entry]) lg')"

definition predict_batch ::
    "env \<Rightarrow> upload_file list \<Rightarrow> log_record list \<Rightarrow> (handler_exception + json) \<times> log_record list"
where
  "predict_batch e files lg =
     (if length files > 10 then
        (Inl (HTTPException 400 ''Maximum 10 images per batch''), lg)
      else
        (case batch_loop e files [] lg of
           (results, lg') \<Rightarrow> (Inr (JObject [(''results'', JArray results)]), lg')))"

subsection \<open>What the web framework sends\<close>

text \<open>
  A handler that returns a dict is answered with status 200 and the dict as the body; one
  that raises \<^verbatim>\<open>HTTPException(status_code, detail)\<close> is answered with that status and
  the body \<^verbatim>\<open>{"detail": detail}\<close>; one that lets any other exception escape is
  answered with status 500 and the fixed text "Internal Server Error", which says nothing
  of the exception.
\<close>

fun http_response :: "handler_exception + json \<Rightarrow> nat \<times> json" where
  "http_response (Inr body) = (200, body)"
| "http_response (Inl (HTTPException status_code detail)) =
     (status_code, JObject [(''detail'', JString detail)])"
| "http_response (Inl (Uncaught ex)) = (500, JString ''Internal Server Error'')"

text \<open>\<^verbatim>\<open>body[key]\<close> of a JSON object, \<open>None\<close> where the key is absent.\<close>

fun json_get :: "json \<Rightarrow> string \<Rightarrow> json option" where
  "json_get (JObject kvs) k = map_of kvs k"
| "json_get _ k = None"

subsection \<open>The filter rule in the words of the specification\<close>

text \<open>
  The two relative sizes and the rule "person label, confidence above 0.7, relative area
  above 0.05, relative height above 0.2", written as one predicate on a detection, for
  comparison with the loop above.
\<close>

definition relative_area :: "int \<Rightarrow> int \<Rightarrow> detection \<Rightarrow> rat" where
  "relative_area img_width img_height d =
     of_int ((xmax (box d) - xmin (box d)) * (ymax (box d) - ymin (box d)))
       / of_int (img_width * img_height)"

definition relative_height :: "int \<Rightarrow> detection \<Rightarrow> rat" where
  "relative_height img_height d = of_int (ymax (box d) - ymin (box d)) / of_int img_height"

definition valid_person :: "int \<Rightarrow> int \<Rightarrow> detection \<Rightarrow> bool" where
  "valid_person img_width img_height d \<longleftrightarrow>
     str_in ''person'' (lower (label d)) \<and> score d > 7 / 10
       \<and> relative_area img_width img_height d > 1 / 20
       \<and> relative_height img_height d > 1 / 5"

text \<open>
  A character is the small letter \<open>l\<close> in either case: \<open>l\<close> itself or its capital, which
  in ASCII lies 32 below. A word spells "person" in any letter case when it does so letter
  by letter.
\<close>

definition same_letter :: "char \<Rightarrow> char \<Rightarrow> bool" where
  "same_letter l c \<longleftrightarrow> c = l \<or> (of_char c :: nat) + 32 = of_char l"

definition person_any_case :: "string \<Rightarrow> bool" where
  "person_any_case w \<longleftrightarrow> list_all2 same_letter ''person'' w"



subsection \<open>Sample inputs\<close>

text \<open>
  A close-up person, a distant one and a dog, on a 100 by 100 image. The sample decoder
  rejects an empty upload; the sample detector reads the number of close-up persons off the
  first byte and fails on the byte 255; the sample classifier returns a fixed row.
\<close>

definition sample_person :: detection where
  "sample_person =
     \<lparr>label = ''person'', score = 9 / 10, box = \<lparr>xmin = 10, ymin = 10, xmax = 60, ymax = 90\<rparr>\<rparr>"

definition sample_distant :: detection where
  "sample_distant =
     \<lparr>label = ''person'', score = 99 / 100, box = \<lparr>xmin = 0, ymin = 0, xmax = 10, ymax = 15\<rparr>\<rparr>"

definition sample_dog :: detection where
  "sample_dog =
     \<lparr>label = ''dog'', score = 99 / 100, box = \<lparr>xmin = 0, ymin = 0, xmax = 90, ymax = 90\<rparr>\<rparr>"

definition sample_image :: "nat list \<Rightarrow> image" where
  "sample_image bytes = \<lparr>img_size = (100, 100), pixels = bytes\<rparr>"

definition sample_env :: "(nat \<rightharpoonup> string) \<Rightarrow> rat list \<Rightarrow> env" where
  "sample_env labels row =
     \<lparr>person_detector =
        (\<lambda>img. case pixels img of
           [] \<Rightarrow> Inr []
         | n # _ \<Rightarrow> if n = 255 then Inl (Exception ''detector failed'')
                    else Inr (sample_dog # sample_distant # replicate n sample_person)),
      classifier = (\<lambda>img. Inr row),
      id2label = labels,
      image_open =
        (\<lambda>bytes. if bytes = [] then Inl (Exception ''cannot identify image file'')
                  else Inr (sample_image bytes))\<rparr>"

definition sample_file :: "string \<Rightarrow> string \<Rightarrow> nat list \<Rightarrow> upload_file" where
  "sample_file name ctype bytes =
     \<lparr>filename = name, content_type = Some ctype, contents = bytes\<rparr>"

text \<open>An upload whose part has no Content-Type header.\<close>

definition bare_file :: "string \<Rightarrow> nat list \<Rightarrow> upload_file" where
  "bare_file name bytes = \<lparr>filename = name, content_type = None, contents = bytes\<rparr>"

text \<open>
  Two label tables for the classifier, the one the response keys presuppose and the one
  with the classes the other way round, and the two environments they give.
\<close>

definition sample_labels :: "nat \<rightharpoonup> string" where
  "sample_labels = [0 \<mapsto> ''male'', 1 \<mapsto> ''female'']"

definition swapped_labels :: "nat \<rightharpoonup> string" where
  "swapped_labels = [0 \<mapsto> ''female'', 1 \<mapsto> ''male'']"

definition sample_row :: "rat list" where
  "sample_row = [9 / 10, 1 / 10]"

definition sample_world :: env where
  "sample_world = sample_env sample_labels sample_row"

definition swapped_world :: env where
  "swapped_world = sample_env swapped_labels sample_row"

text \<open>A classifier with three classes.\<close>

definition three_labels :: "nat \<rightharpoonup> string" where
  "three_labels = [0 \<mapsto> ''male'', 1 \<mapsto> ''female'', 2 \<mapsto> ''other'']"

definition three_row :: "rat list" where
  "three_row = [5 / 10, 3 / 10, 2 / 10]"

definition three_world :: env where
  "three_world = sample_env three_labels three_row"

section \<open>Proofs\<close>

subsection \<open>Strings\<close>

lemma startswith_iff: "startswith s p \<longleftrightarrow> (\<exists>t. s = p @ t)"
  by (induction s p rule: startswith.induct) auto

lemma str_in_iff: "str_in sub s \<longleftrightarrow> (\<exists>pre post. s = pre @ sub @ post)"
proof (induction s)
  case Nil
  then show ?case by auto
next
  case (Cons c s)
  show ?case
  proof
    assume "str_in sub (c # s)"
    then consider "startswith (c # s) sub" | "str_in sub s" by auto
    then show "\<exists>pre post. c # s = pre @ sub @ post"
    proof cases
      case 1
      then obtain t where "c # s = sub @ t" using startswith_iff by blast
      then have "c # s = [] @ sub @ t" by simp
      then show ?thesis by blast
    next
      case 2
      then obtain pre post where "s = pre @ sub @ post" using Cons.IH by blast
      then have "c # s = (c # pre) @ sub @ post" by simp
      then show ?thesis by blast
    qed
  next
    assume "\<exists>pre post. c # s = pre @ sub @ post"
    then obtain pre post where eq: "c # s = pre @ sub @ post" by blast
    show "str_in sub (c # s)"
    proof (cases pre)
      case Nil
      with eq have "startswith (c # s) sub" using startswith_iff by auto
      then show ?thesis by simp
    next
      case (Cons a pre')
      with eq have "s = pre' @ sub @ post" by simp
      then have "str_in sub s" using Cons.IH by blast
      then show ?thesis by simp
    qed
  qed
qed

lemma of_char_lower_char:
  "(of_char (lower_char c) :: nat) =
     (if 65 \<le> (of_char c :: nat) \<and> (of_char c :: nat) \<le> 90 then of_char c + 32 else of_char c)"
  by (simp add: lower_char_def Let_def)

lemma lower_char_eq_iff:
  "lower_char c = l \<longleftrightarrow>
     (if 65 \<le> (of_char c :: nat) \<and> (of_char c :: nat) \<le> 90 then of_char c + 32 else of_char c)
       = (of_char l :: nat)"
  using of_char_lower_char [of c] of_char_eq_iff [of "lower_char c" l, where ?'a = nat] by simp

lemma char_eq_nat: "c = l \<longleftrightarrow> (of_char c :: nat) = of_char l"
  by simp

lemma lower_char_small_letter:
  assumes "97 \<le> (of_char l :: nat)" and "(of_char l :: nat) \<le> 122"
  shows "lower_char c = l \<longleftrightarrow> same_letter l c"
  unfolding lower_char_eq_iff same_letter_def char_eq_nat [of c l] using assms by auto

lemma lower_eq_person: "lower w = ''person'' \<longleftrightarrow> person_any_case w"
  by (auto simp: lower_def person_any_case_def list_all2_Cons1 lower_char_small_letter)

lemma lower_append: "lower (a @ b) = lower a @ lower b"
  by (simp add: lower_def)

lemma str_in_map_iff:
  "str_in sub (map f l) \<longleftrightarrow> (\<exists>pre w post. l = pre @ w @ post \<and> map f w = sub)"
proof
  assume "str_in sub (map f l)"
  then obtain a b where "map f l = a @ sub @ b"
    unfolding str_in_iff by blast
  then have "\<exists>us vs. l = us @ vs \<and> a = map f us \<and> sub @ b = map f vs"
    by (simp only: map_eq_append_conv)
  then obtain pre rest where l: "l = pre @ rest" and rest: "sub @ b = map f rest"
    by blast
  from rest have "\<exists>us vs. rest = us @ vs \<and> sub = map f us \<and> b = map f vs"
    by (simp only: append_eq_map_conv)
  then obtain w post where r: "rest = w @ post" and w: "map f w = sub"
    by blast
  from l r have "l = pre @ w @ post" by simp
  with w show "\<exists>pre w post. l = pre @ w @ post \<and> map f w = sub" by blast
next
  assume "\<exists>pre w post. l = pre @ w @ post \<and> map f w = sub"
  then obtain pre w post where l: "l = pre @ w @ post" and w: "map f w = sub" by blast
  then have "map f l = map f pre @ sub @ map f post" by simp
  then show "str_in sub (map f l)" unfolding str_in_iff by blast
qed

lemma person_label_iff:
  "str_in ''person'' (lower l) \<longleftrightarrow> (\<exists>pre w post. l = pre @ w @ post \<and> person_any_case w)"
  unfolding lower_def str_in_map_iff lower_eq_person [symmetric, unfolded lower_def] ..

subsection \<open>The loop of the filter\<close>

lemma count_step_valid:
  assumes "img_width * img_height \<noteq> 0"
  shows "count_step img_width img_height d v =
           Inr (if valid_person img_width img_height d then v + 1 else v)"
proof -
  from assms have "img_height \<noteq> 0" by auto
  with assms show ?thesis
    by (simp add: count_step_def valid_person_def relative_area_def relative_height_def
        true_div_def bind_exn_def Let_def)
qed

lemma count_step_other_label:
  "\<not> str_in ''person'' (lower (label d)) \<Longrightarrow> count_step img_width img_height d v = Inr v"
  by (simp add: count_step_def)

lemma count_loop_valid:
  assumes "img_width * img_height \<noteq> 0"
  shows "count_loop img_width img_height ds v =
           Inr (v + length (filter (valid_person img_width img_height) ds))"
  using assms
  by (induction ds arbitrary: v) (simp_all add: count_step_valid bind_exn_def)

lemma count_people_detected:
  assumes "person_detector e img = Inr detections" and "img_size img = (img_width, img_height)"
    and "img_width * img_height \<noteq> 0"
  shows "count_people_in_image e img lg =
           (length (filter (valid_person img_width img_height) detections), lg)"
  using assms by (simp add: count_people_in_image_def count_people_try_def bind_exn_def count_loop_valid)

lemma count_people_failed:
  assumes "person_detector e img = Inl ex"
  shows "count_people_in_image e img lg =
           (1, lg @ [LogError (''Error in person detection: '' @ str_exn ex)])"
  using assms by (simp add: count_people_in_image_def count_people_try_def bind_exn_def)

lemma count_people_fst: "fst (count_people_in_image e img lg) = fst (count_people_in_image e img lg')"
  by (simp add: count_people_in_image_def split: sum.splits)

subsection \<open>Claims about the person-count filter\<close>

text \<open>
  C1. When the detector answers and the image has a non-zero area, every detection moves
  the counter by one exactly if its label passes the person test, its confidence exceeds
  0.7, its relative area exceeds 0.05 and its relative height exceeds 0.2, and not at all
  otherwise; the filter returns the number of such detections and logs nothing.
\<close>

theorem count_people_counts_valid:
  assumes "person_detector e img = Inr detections"
    and "img_size img = (img_width, img_height)"
    and "img_width * img_height \<noteq> 0"
  shows "count_people_in_image e img lg =
           (length (filter (valid_person img_width img_height) detections), lg)
         \<and> (\<forall>d v. count_step img_width img_height d v =
                Inr (if valid_person img_width img_height d then v + 1 else v))"
  using assms by (simp add: count_people_detected count_step_valid)

theorem count_people_counts_valid_witness:
  "person_detector (sample_env Map.empty []) (sample_image [2])
       = Inr [sample_dog, sample_distant, sample_person, sample_person]
   \<and> img_size (sample_image [2]) = (100, 100)
   \<and> (100 :: int) * 100 \<noteq> 0
   \<and> count_people_in_image (sample_env Map.empty []) (sample_image [2]) [] = (2, [])
   \<and> count_step 100 100 sample_person 0 = Inr 1
   \<and> count_step 100 100 sample_distant 0 = Inr 0
   \<and> count_step 100 100 sample_dog 0 = Inr 0"
proof -
  have d: "person_detector (sample_env Map.empty []) (sample_image [2])
             = Inr [sample_dog, sample_distant, sample_person, sample_person]"
    by (simp add: sample_env_def sample_image_def eval_nat_numeral)
  have s: "img_size (sample_image [2]) = (100, 100)"
    by (simp add: sample_image_def)
  have z: "(100 :: int) * 100 \<noteq> 0" by simp
  have v: "valid_person 100 100 sample_person" "\<not> valid_person 100 100 sample_distant"
    "\<not> valid_person 100 100 sample_dog"
    by (simp_all add: valid_person_def relative_area_def relative_height_def sample_person_def
        sample_distant_def sample_dog_def lower_def lower_char_def)
  show ?thesis
    using count_people_counts_valid [OF d s z, of "[]"] d s v by simp
qed

text \<open>
  C2. When the detector call raises, the filter returns the count 1 as an ordinary value
  and appends one error record, carrying the exception's message, to the log.
\<close>

theorem detector_failure_counts_one:
  assumes "person_detector e img = Inl ex"
  shows "count_people_in_image e img lg =
           (1, lg @ [LogError (''Error in person detection: '' @ str_exn ex)])"
  using assms by (rule count_people_failed)

theorem detector_failure_counts_one_witness:
  "person_detector (sample_env Map.empty []) (sample_image [255]) = Inl (Exception ''detector failed'')
   \<and> count_people_in_image (sample_env Map.empty []) (sample_image [255]) []
       = (1, [LogError ''Error in person detection: detector failed''])"
proof -
  have d: "person_detector (sample_env Map.empty []) (sample_image [255])
             = Inl (Exception ''detector failed'')"
    by (simp add: sample_env_def sample_image_def)
  show ?thesis using detector_failure_counts_one [OF d, of "[]"] d by simp
qed

text \<open>
  C9. The label test succeeds exactly on the labels that contain the word "person" written
  in any mix of small and capital letters. A detection whose label does not contain it
  leaves the counter as it is, whatever its score, its box and the image size; one whose
  label contains it is passed on to the three thresholds.
\<close>

theorem label_test_any_case_substring:
  "(str_in ''person'' (lower (label d))
      \<longleftrightarrow> (\<exists>pre w post. label d = pre @ w @ post \<and> person_any_case w))
   \<and> (\<not> (\<exists>pre w post. label d = pre @ w @ post \<and> person_any_case w)
        \<longrightarrow> count_step img_width img_height d v = Inr v)
   \<and> ((\<exists>pre w post. label d = pre @ w @ post \<and> person_any_case w) \<and> img_width * img_height \<noteq> 0
        \<longrightarrow> count_step img_width img_height d v =
              Inr (if score d > 7 / 10 \<and> relative_area img_width img_height d > 1 / 20
                      \<and> relative_height img_height d > 1 / 5
                   then v + 1 else v))"
proof (intro conjI impI)
  show "str_in ''person'' (lower (label d))
      \<longleftrightarrow> (\<exists>pre w post. label d = pre @ w @ post \<and> person_any_case w)"
    by (rule person_label_iff)
next
  assume "\<not> (\<exists>pre w post. label d = pre @ w @ post \<and> person_any_case w)"
  then have "\<not> str_in ''person'' (lower (label d))" unfolding person_label_iff .
  then show "count_step img_width img_height d v = Inr v" by (rule count_step_other_label)
next
  assume a: "(\<exists>pre w post. label d = pre @ w @ post \<and> person_any_case w) \<and> img_width * img_height \<noteq> 0"
  then have "str_in ''person'' (lower (label d))" unfolding person_label_iff by blast
  with a show "count_step img_width img_height d v =
              Inr (if score d > 7 / 10 \<and> relative_area img_width img_height d > 1 / 20
                      \<and> relative_height img_height d > 1 / 5
                   then v + 1 else v)"
    by (simp add: count_step_valid valid_person_def)
qed

theorem label_test_any_case_substring_witness:
  "person_any_case ''Person''
   \<and> str_in ''person'' (lower ''Personnel'')
   \<and> count_step 100 100 (sample_person\<lparr>label := ''Personnel''\<rparr>) 0 = Inr 1
   \<and> \<not> str_in ''person'' (lower ''dog'')
   \<and> count_step 100 100 sample_dog 0 = Inr 0"
proof -
  let ?d = "sample_person\<lparr>label := ''Personnel''\<rparr>"
  have w: "person_any_case ''Person''"
    by (simp add: person_any_case_def same_letter_def)
  have l: "label ?d = [] @ ''Person'' @ ''nel''" by simp
  from l w have ex: "\<exists>pre w post. label ?d = pre @ w @ post \<and> person_any_case w" by blast
  have z: "(100 :: int) * 100 \<noteq> 0" by simp
  have dog: "\<not> str_in ''person'' (lower (label sample_dog))"
    by (simp add: sample_dog_def lower_def lower_char_def)
  have t: "score ?d > 7 / 10 \<and> relative_area 100 100 ?d > 1 / 20 \<and> relative_height 100 ?d > 1 / 5"
    by (simp add: relative_area_def relative_height_def sample_person_def)
  have p: "str_in ''person'' (lower (label ?d))"
    using label_test_any_case_substring [of ?d 100 100 0] ex by blast
  have c: "count_step 100 100 ?d 0 = Inr 1"
    using label_test_any_case_substring [of ?d 100 100 0] ex z t by simp
  have n: "count_step 100 100 sample_dog 0 = Inr 0"
    using label_test_any_case_substring [of sample_dog 100 100 0] dog by blast
  from w p c dog n show ?thesis by (simp add: sample_dog_def)
qed

subsection \<open>Maximum and its first position\<close>

lemma fold_max_Max: "fold max qs p = Max (insert p (set qs))"
  using Max.set_eq_fold [of p qs] by simp

lemma torch_max_Max: "ps \<noteq> [] \<Longrightarrow> torch_max ps = Inr (Max (set ps))"
  by (cases ps) (simp_all add: torch_max_def fold_max_Max)

lemma torch_argmax_first: "ps \<noteq> [] \<Longrightarrow> torch_argmax ps = Inr (first_index ps (Max (set ps)))"
  by (cases ps) (simp_all add: torch_argmax_def fold_max_Max)

lemma first_index_nth:
  "m \<in> set ps \<Longrightarrow> first_index ps m < length ps \<and> ps ! first_index ps m = m"
  by (induction ps) auto

lemma first_index_least: "j < first_index ps m \<Longrightarrow> ps ! j \<noteq> m"
proof (induction ps arbitrary: j)
  case Nil
  then show ?case by simp
next
  case (Cons p ps)
  then show ?case by (cases j) (auto split: if_splits)
qed

lemma argmax_is_max:
  assumes "ps \<noteq> []"
  shows "first_index ps (Max (set ps)) < length ps"
    and "ps ! first_index ps (Max (set ps)) = Max (set ps)"
    and "\<forall>j < length ps. ps ! j \<le> ps ! first_index ps (Max (set ps))"
proof -
  from assms have m: "Max (set ps) \<in> set ps" by (simp add: Max_in)
  from first_index_nth [OF m] show "first_index ps (Max (set ps)) < length ps"
    and e: "ps ! first_index ps (Max (set ps)) = Max (set ps)" by simp_all
  show "\<forall>j < length ps. ps ! j \<le> ps ! first_index ps (Max (set ps))"
    unfolding e by simp
qed

subsection \<open>The single-image handler\<close>

lemma make_prediction_ok:
  assumes "classifier e img = Inr ps" and "ps \<noteq> []"
    and "id2label e (first_index ps (Max (set ps))) = Some l"
  shows "make_prediction e img = Inr (ps, l, Max (set ps))"
  using assms
  by (simp add: make_prediction_def bind_exn_def torch_argmax_first torch_max_Max dict_get_def)

lemma make_prediction_row:
  "make_prediction e img = Inr (ps, l, c) \<Longrightarrow> classifier e img = Inr ps"
  by (auto simp: make_prediction_def bind_exn_def split: sum.splits)

lemma predict_gender_no_type:
  "content_type file = None \<Longrightarrow>
     predict_gender e file lg = (Inl (Uncaught (none_has_no_attribute ''startswith'')), lg)"
  by (simp add: predict_gender_def content_type_startswith_def)

lemma predict_gender_not_image:
  "content_type file = Some ct \<Longrightarrow> \<not> startswith ct ''image/'' \<Longrightarrow>
     predict_gender e file lg = (Inl (HTTPException 400 ''File must be an image''), lg)"
  by (simp add: predict_gender_def content_type_startswith_def)

lemma predict_gender_raised:
  assumes "content_type file = Some ct" and "startswith ct ''image/''"
    and "predict_gender_try e file lg = (Inl ex, lg')"
  shows "predict_gender e file lg =
           (Inl (HTTPException 500 (''Prediction failed: '' @ str_exn ex)),
            lg' @ [LogError (''Error in prediction: '' @ str_exn ex)])"
  using assms by (simp add: predict_gender_def content_type_startswith_def)

lemma predict_gender_returned:
  assumes "content_type file = Some ct" and "startswith ct ''image/''"
    and "predict_gender_try e file lg = (Inr body, lg')"
  shows "predict_gender e file lg = (Inr body, lg')"
  using assms by (simp add: predict_gender_def content_type_startswith_def)

lemma try_decode_failed:
  "image_open e (contents file) = Inl ex \<Longrightarrow> predict_gender_try e file lg = (Inl ex, lg)"
  by (simp add: predict_gender_try_def)

lemma try_no_person:
  assumes "image_open e (contents file) = Inr img"
    and "fst (count_people_in_image e img lg) = 0"
  shows "fst (predict_gender_try e file lg) =
           Inr (JObject
                  [(''error'', JString ''No person detected in image''),
                   (''person_count'', JInt 0),
                   (''prediction'', JNull),
                   (''confidence'', JFloat 0)])"
  using assms by (cases "count_people_in_image e img lg") (simp add: predict_gender_try_def)

lemma try_multiple:
  assumes "image_open e (contents file) = Inr img"
    and "fst (count_people_in_image e img lg) = n" and "1 < n"
  shows "fst (predict_gender_try e file lg) =
           Inr (JObject
                  [(''error'', JString (''Multiple people detected ('' @ str_nat n
                      @ '' people). Please use single-person images.'')),
                   (''person_count'', JInt (int n)),
                   (''prediction'', JNull),
                   (''confidence'', JFloat 0)])"
  using assms by (cases "count_people_in_image e img lg") (simp add: predict_gender_try_def)

lemma try_single:
  assumes "image_open e (contents file) = Inr img"
    and "fst (count_people_in_image e img lg) = 1"
  shows "fst (predict_gender_try e file lg) =
           bind_exn (make_prediction e img)
             (\<lambda>(predictions, predicted_label, confidence).
                bind_exn (tensor_index predictions 0)
                  (\<lambda>male.
                     bind_exn (tensor_index predictions 1)
                       (\<lambda>female.
                          Inr (JObject
                            [(''prediction'', JString predicted_label),
                             (''confidence'', JFloat confidence),
                             (''person_count'', JInt 1),
                             (''probabilities'',
                                JObject [(''male'', JFloat male), (''female'', JFloat female)]),
                             (''error'', JNull)]))))"
  using assms by (cases "count_people_in_image e img lg") (simp add: predict_gender_try_def)

lemma fst_predict_gender:
  "content_type file = Some ct \<Longrightarrow> startswith ct ''image/'' \<Longrightarrow>
     fst (predict_gender e file lg) =
       (case fst (predict_gender_try e file lg) of
          Inr body \<Rightarrow> Inr body
        | Inl ex \<Rightarrow> Inl (HTTPException 500 (''Prediction failed: '' @ str_exn ex)))"
  by (simp add: predict_gender_def content_type_startswith_def split: prod.splits sum.splits)

lemma predict_gender_success:
  assumes ok: "fst (predict_gender e file lg) = Inr body"
    and err: "json_get body ''error'' = Some JNull"
  shows "\<exists>img ps l c. image_open e (contents file) = Inr img
           \<and> fst (count_people_in_image e img lg) = 1
           \<and> make_prediction e img = Inr (ps, l, c) \<and> 2 \<le> length ps
           \<and> body = JObject
                [(''prediction'', JString l),
                 (''confidence'', JFloat c),
                 (''person_count'', JInt 1),
                 (''probabilities'', JObject [(''male'', JFloat (ps ! 0)), (''female'', JFloat (ps ! 1))]),
                 (''error'', JNull)]"
proof -
  obtain ct where ct: "content_type file = Some ct" "startswith ct ''image/''"
    using ok
    by (cases "content_type file")
      (auto simp: predict_gender_def content_type_startswith_def split: if_splits)
  from ok have t: "fst (predict_gender_try e file lg) = Inr body"
    unfolding fst_predict_gender [OF ct] by (auto split: sum.splits)
  obtain img where img: "image_open e (contents file) = Inr img"
    using t try_decode_failed [of e "file" _ lg] by (cases "image_open e (contents file)") auto
  let ?n = "fst (count_people_in_image e img lg)"
  have n1: "?n = 1"
  proof (rule ccontr)
    assume "?n \<noteq> 1"
    then consider "?n = 0" | "1 < ?n" by linarith
    then show False
    proof cases
      case 1
      from try_no_person [OF img 1] t err show False by simp
    next
      case 2
      from try_multiple [OF img refl 2] t err show False by simp
    qed
  qed
  from try_single [OF img n1] t obtain ps l c where
    mp: "make_prediction e img = Inr (ps, l, c)"
    and rest: "bind_exn (tensor_index ps 0)
                  (\<lambda>male.
                     bind_exn (tensor_index ps 1)
                       (\<lambda>female.
                          Inr (JObject
                            [(''prediction'', JString l),
                             (''confidence'', JFloat c),
                             (''person_count'', JInt 1),
                             (''probabilities'',
                                JObject [(''male'', JFloat male), (''female'', JFloat female)]),
                             (''error'', JNull)]))) = Inr body"
    by (cases "make_prediction e img") (auto simp: bind_exn_def)
  from rest have len: "2 \<le> length ps"
    by (auto simp: bind_exn_def tensor_index_def split: if_splits)
  with rest have "body = JObject
                [(''prediction'', JString l),
                 (''confidence'', JFloat c),
                 (''person_count'', JInt 1),
                 (''probabilities'', JObject [(''male'', JFloat (ps ! 0)), (''female'', JFloat (ps ! 1))]),
                 (''error'', JNull)]"
    by (auto simp: bind_exn_def tensor_index_def split: if_splits)
  with img n1 mp len show ?thesis by blast
qed


subsection \<open>Running the handlers on the sample inputs\<close>

lemmas sample_defs =
  sample_world_def swapped_world_def three_world_def sample_env_def sample_labels_def
  swapped_labels_def three_labels_def sample_row_def three_row_def sample_image_def
  sample_file_def bare_file_def sample_person_def sample_distant_def sample_dog_def

lemmas run_defs =
  predict_gender_def content_type_startswith_def predict_gender_try_def make_prediction_def torch_max_def
  torch_argmax_def tensor_index_def dict_get_def count_people_in_image_def
  count_people_try_def count_step_def true_div_def bind_exn_def lower_def lower_char_def

lemma sample_count:
  "fst (count_people_in_image sample_world (sample_image [0]) []) = 0"
  "fst (count_people_in_image sample_world (sample_image [1]) []) = 1"
  "fst (count_people_in_image sample_world (sample_image [3]) []) = 3"
  "fst (count_people_in_image swapped_world (sample_image [1]) []) = 1"
  "fst (count_people_in_image three_world (sample_image [1]) []) = 1"
  by (simp_all add: sample_defs run_defs eval_nat_numeral)

lemma sample_open:
  "image_open sample_world (contents (sample_file name ctype [n])) = Inr (sample_image [n])"
  "image_open swapped_world (contents (sample_file name ctype [n])) = Inr (sample_image [n])"
  "image_open sample_world (contents (sample_file name ctype [])) = Inl (Exception ''cannot identify image file'')"
  by (simp_all add: sample_defs)

lemma sample_ctype:
  "content_type (sample_file name ctype bytes) = Some ctype"
  "content_type (bare_file name bytes) = None"
  "startswith ''image/png'' ''image/''"
  "\<not> startswith ''text/plain'' ''image/''"
  by (simp_all add: sample_file_def bare_file_def)

lemma sample_classifier:
  "classifier sample_world img = Inr sample_row"
  "classifier swapped_world img = Inr sample_row"
  by (simp_all add: sample_defs)

subsection \<open>Claims about \<^verbatim>\<open>POST /predict\<close>\<close>

text \<open>
  C3, as stated, does not hold: with no person in the image the payload's error text is
  "No person detected in image", not "No person detected".
\<close>

theorem no_person_message_counterexample:
  "fst (count_people_in_image sample_world (sample_image [0]) []) = 0
   \<and> json_get (snd (http_response (fst (predict_gender sample_world
          (sample_file ''a.png'' ''image/png'' [0]) [])))) ''error''
       \<noteq> Some (JString ''No person detected'')"
  by (simp add: sample_defs run_defs)

text \<open>
  C3, amended. When the upload is declared an image, decodes, and the filter counts
  \<open>n \<noteq> 1\<close> persons, the answer has status 200 and the payload: error "No person detected
  in image" for \<open>n = 0\<close> and "Multiple people detected (n people). Please use
  single-person images." for \<open>n > 1\<close>, person_count \<open>n\<close>, prediction null, confidence 0.0.
\<close>

theorem predict_other_counts:
  assumes "content_type file = Some ct" and "startswith ct ''image/''"
    and "image_open e (contents file) = Inr img"
    and "fst (count_people_in_image e img lg) = n"
    and "n \<noteq> 1"
  shows "http_response (fst (predict_gender e file lg)) =
           (200, JObject
              [(''error'', JString
                  (if n = 0 then ''No person detected in image''
                   else ''Multiple people detected ('' @ str_nat n
                          @ '' people). Please use single-person images.'')),
               (''person_count'', JInt (int n)),
               (''prediction'', JNull),
               (''confidence'', JFloat 0)])"
proof (cases "n = 0")
  case True
  with assms(3,4) have "fst (predict_gender_try e file lg) =
           Inr (JObject
                  [(''error'', JString ''No person detected in image''),
                   (''person_count'', JInt 0),
                   (''prediction'', JNull),
                   (''confidence'', JFloat 0)])"
    using try_no_person [of e "file" img lg] by simp
  with True show ?thesis by (simp add: fst_predict_gender [OF assms(1,2)])
next
  case False
  with assms(5) have "1 < n" by simp
  from try_multiple [OF assms(3,4) this] False show ?thesis
    by (simp add: fst_predict_gender [OF assms(1,2)])
qed

theorem predict_other_counts_witness:
  "content_type (sample_file ''a.png'' ''image/png'' [3]) = Some ''image/png''
   \<and> startswith ''image/png'' ''image/''
   \<and> image_open sample_world (contents (sample_file ''a.png'' ''image/png'' [3]))
        = Inr (sample_image [3])
   \<and> fst (count_people_in_image sample_world (sample_image [3]) []) = 3
   \<and> (3 :: nat) \<noteq> 1
   \<and> http_response (fst (predict_gender sample_world (sample_file ''a.png'' ''image/png'' [3]) [])) =
           (200, JObject
              [(''error'', JString
                  ''Multiple people detected (3 people). Please use single-person images.''),
               (''person_count'', JInt 3),
               (''prediction'', JNull),
               (''confidence'', JFloat 0)])"
proof -
  let ?f = "sample_file ''a.png'' ''image/png'' [3]"
  have c: "content_type ?f = Some ''image/png''" by (rule sample_ctype)
  have i: "startswith ''image/png'' ''image/''" by (rule sample_ctype)
  have o: "image_open sample_world (contents ?f) = Inr (sample_image [3])" by (rule sample_open)
  have n: "(3 :: nat) \<noteq> 1" by simp
  have s: "str_nat 3 = ''3''" by (simp add: str_nat.simps digit_char_def)
  show ?thesis
    using predict_other_counts [OF c i o sample_count(3) n] c i o sample_count(3) s by simp
qed




text \<open>
  C7. The handler breaks the claim on an upload whose part has no Content-Type header, as
  the repository's own client \<^verbatim>\<open>test_api.py\<close> sends it: the content type is
  \<^verbatim>\<open>None\<close>, the test on line 161 stands before the try block, and the AttributeError of
  \<^verbatim>\<open>None.startswith\<close> leaves the handler uncaught. The answer is neither the 400 of a
  non-image upload nor a 500 whose detail carries the exception's message, and nothing is
  logged. The batch handler makes the same test inside its try block and reports the
  message in the file's entry; the same bytes declared as image/jpeg are classified.
\<close>

theorem missing_content_type_escapes:
  "content_type (bare_file ''a.jpg'' [1]) = None
   \<and> predict_gender sample_world (bare_file ''a.jpg'' [1]) []
       = (Inl (Uncaught (none_has_no_attribute ''startswith'')), [])
   \<and> http_response (fst (predict_gender sample_world (bare_file ''a.jpg'' [1]) []))
       = (500, JString ''Internal Server Error'')
   \<and> fst (batch_item sample_world (bare_file ''a.jpg'' [1]) []) =
        JObject
          [(''filename'', JString ''a.jpg''),
           (''error'', JString (str_exn (none_has_no_attribute ''startswith''))),
           (''prediction'', JNull),
           (''confidence'', JFloat 0)]
   \<and> fst (predict_gender sample_world (sample_file ''a.jpg'' ''image/jpeg'' [1]) []) =
        Inr (JObject
          [(''prediction'', JString ''male''),
           (''confidence'', JFloat (9 / 10)),
           (''person_count'', JInt 1),
           (''probabilities'', JObject [(''male'', JFloat (9 / 10)), (''female'', JFloat (1 / 10))]),
           (''error'', JNull)])"
proof -
  let ?f = "bare_file ''a.jpg'' [1]"
  have n: "content_type ?f = None" by (rule sample_ctype)
  have p: "predict_gender sample_world ?f []
       = (Inl (Uncaught (none_has_no_attribute ''startswith'')), [])"
    using n by (rule predict_gender_no_type)
  have b: "fst (batch_item sample_world ?f []) =
        JObject
          [(''filename'', JString ''a.jpg''),
           (''error'', JString (str_exn (none_has_no_attribute ''startswith''))),
           (''prediction'', JNull),
           (''confidence'', JFloat 0)]"
    by (simp add: batch_item_def batch_item_try_def content_type_startswith_def bare_file_def)
  have g: "fst (predict_gender sample_world (sample_file ''a.jpg'' ''image/jpeg'' [1]) []) =
        Inr (JObject
          [(''prediction'', JString ''male''),
           (''confidence'', JFloat (9 / 10)),
           (''person_count'', JInt 1),
           (''probabilities'', JObject [(''male'', JFloat (9 / 10)), (''female'', JFloat (1 / 10))]),
           (''error'', JNull)])"
    by (simp add: sample_defs run_defs)
  from n p b g show ?thesis by simp
qed

text \<open>
  What the handler does on an upload that declares a content type: one that does not start
  with "image/" is answered with status 400 and nothing else happens; with an image
  content type the handler either returns a payload or answers with status 500, and every
  exception raised inside its try block, a failing decoder and a failing classifier among
  them, becomes status 500 with the detail "Prediction failed: " followed by the
  exception's message, and is logged.
\<close>

lemma predict_declared_type_statuses:
  assumes "content_type file = Some ct"
  shows "(\<not> startswith ct ''image/'' \<longrightarrow>
      predict_gender e file lg = (Inl (HTTPException 400 ''File must be an image''), lg)
      \<and> http_response (fst (predict_gender e file lg))
          = (400, JObject [(''detail'', JString ''File must be an image'')]))
   \<and> (startswith ct ''image/'' \<longrightarrow>
        (\<forall>ex lg'. predict_gender_try e file lg = (Inl ex, lg') \<longrightarrow>
           predict_gender e file lg =
             (Inl (HTTPException 500 (''Prediction failed: '' @ str_exn ex)),
              lg' @ [LogError (''Error in prediction: '' @ str_exn ex)])
           \<and> http_response (fst (predict_gender e file lg))
               = (500, JObject [(''detail'', JString (''Prediction failed: '' @ str_exn ex))]))
        \<and> (\<forall>ex. image_open e (contents file) = Inl ex \<longrightarrow>
             predict_gender_try e file lg = (Inl ex, lg))
        \<and> (\<forall>img ex. image_open e (contents file) = Inr img
               \<and> fst (count_people_in_image e img lg) = 1 \<and> classifier e img = Inl ex \<longrightarrow>
             fst (predict_gender_try e file lg) = Inl ex)
        \<and> ((\<exists>body. fst (predict_gender e file lg) = Inr body)
            \<or> (\<exists>ex. fst (predict_gender e file lg)
                  = Inl (HTTPException 500 (''Prediction failed: '' @ str_exn ex)))))"
proof (intro conjI impI allI)
  assume "\<not> startswith ct ''image/''"
  with assms show "predict_gender e file lg = (Inl (HTTPException 400 ''File must be an image''), lg)"
    by (rule predict_gender_not_image)
  then show "http_response (fst (predict_gender e file lg))
          = (400, JObject [(''detail'', JString ''File must be an image'')])"
    by simp
next
  fix ex lg'
  assume "startswith ct ''image/''"
    and "predict_gender_try e file lg = (Inl ex, lg')"
  with assms show r: "predict_gender e file lg =
             (Inl (HTTPException 500 (''Prediction failed: '' @ str_exn ex)),
              lg' @ [LogError (''Error in prediction: '' @ str_exn ex)])"
    by (rule predict_gender_raised)
  then show "http_response (fst (predict_gender e file lg))
               = (500, JObject [(''detail'', JString (''Prediction failed: '' @ str_exn ex))])"
    by simp
next
  fix ex
  assume "image_open e (contents file) = Inl ex"
  then show "predict_gender_try e file lg = (Inl ex, lg)" by (rule try_decode_failed)
next
  fix img ex
  assume "image_open e (contents file) = Inr img
               \<and> fst (count_people_in_image e img lg) = 1 \<and> classifier e img = Inl ex"
  then show "fst (predict_gender_try e file lg) = Inl ex"
    using try_single [of e "file" img lg] by (simp add: make_prediction_def bind_exn_def)
next
  assume ct: "startswith ct ''image/''"
  show "(\<exists>body. fst (predict_gender e file lg) = Inr body)
            \<or> (\<exists>ex. fst (predict_gender e file lg)
                  = Inl (HTTPException 500 (''Prediction failed: '' @ str_exn ex)))"
    unfolding fst_predict_gender [OF assms ct]
    by (cases "fst (predict_gender_try e file lg)") auto
qed

text \<open>
  C10. In every answer of \<^verbatim>\<open>/predict\<close> with a null error, the probabilities mapping has
  exactly the keys male and female, in this order, holding entries 0 and 1 of the
  classifier's row; replacing the label table by any other leaves the mapping as it is.
  With the table of the two classes swapped and the row (0.9, 0.1), the prediction is
  "female" with confidence 0.9 while the mapping gives female the probability 0.1.
\<close>

theorem probabilities_by_position:
  "(\<forall>body. fst (predict_gender e file lg) = Inr body \<and> json_get body ''error'' = Some JNull \<longrightarrow>
      (\<exists>img ps. image_open e (contents file) = Inr img \<and> classifier e img = Inr ps
         \<and> 2 \<le> length ps
         \<and> json_get body ''probabilities''
             = Some (JObject [(''male'', JFloat (ps ! 0)), (''female'', JFloat (ps ! 1))]))
      \<and> (\<forall>labels body'.
            fst (predict_gender (e\<lparr>id2label := labels\<rparr>) file lg) = Inr body'
              \<and> json_get body' ''error'' = Some JNull \<longrightarrow>
            json_get body' ''probabilities'' = json_get body ''probabilities''))
   \<and> fst (predict_gender swapped_world (sample_file ''a.png'' ''image/png'' [1]) []) =
        Inr (JObject
          [(''prediction'', JString ''female''),
           (''confidence'', JFloat (9 / 10)),
           (''person_count'', JInt 1),
           (''probabilities'', JObject [(''male'', JFloat (9 / 10)), (''female'', JFloat (1 / 10))]),
           (''error'', JNull)])"
proof (intro conjI allI impI)
  fix body
  assume a: "fst (predict_gender e file lg) = Inr body \<and> json_get body ''error'' = Some JNull"
  then obtain img ps l c where img: "image_open e (contents file) = Inr img"
    and mp: "make_prediction e img = Inr (ps, l, c)" and len: "2 \<le> length ps"
    and body: "body = JObject
                [(''prediction'', JString l),
                 (''confidence'', JFloat c),
                 (''person_count'', JInt 1),
                 (''probabilities'', JObject [(''male'', JFloat (ps ! 0)), (''female'', JFloat (ps ! 1))]),
                 (''error'', JNull)]"
    using predict_gender_success [of e "file" lg body] by blast
  from mp have row: "classifier e img = Inr ps" by (rule make_prediction_row)
  have pr: "json_get body ''probabilities''
             = Some (JObject [(''male'', JFloat (ps ! 0)), (''female'', JFloat (ps ! 1))])"
    by (simp add: body)
  from img row len pr
  show "\<exists>img ps. image_open e (contents file) = Inr img \<and> classifier e img = Inr ps
         \<and> 2 \<le> length ps
         \<and> json_get body ''probabilities''
             = Some (JObject [(''male'', JFloat (ps ! 0)), (''female'', JFloat (ps ! 1))])"
    by blast
  fix labels body'
  assume b: "fst (predict_gender (e\<lparr>id2label := labels\<rparr>) file lg) = Inr body'
              \<and> json_get body' ''error'' = Some JNull"
  then obtain img' ps' l' c' where img': "image_open (e\<lparr>id2label := labels\<rparr>) (contents file) = Inr img'"
    and mp': "make_prediction (e\<lparr>id2label := labels\<rparr>) img' = Inr (ps', l', c')"
    and body': "body' = JObject
                [(''prediction'', JString l'),
                 (''confidence'', JFloat c'),
                 (''person_count'', JInt 1),
                 (''probabilities'', JObject [(''male'', JFloat (ps' ! 0)), (''female'', JFloat (ps' ! 1))]),
                 (''error'', JNull)]"
    using predict_gender_success [of "e\<lparr>id2label := labels\<rparr>" "file" lg body'] by blast
  from img' img have "img' = img" by simp
  moreover from mp' have "classifier (e\<lparr>id2label := labels\<rparr>) img' = Inr ps'"
    by (rule make_prediction_row)
  ultimately have "ps' = ps" using row by simp
  then show "json_get body' ''probabilities'' = json_get body ''probabilities''"
    by (simp add: body body')
next
  show "fst (predict_gender swapped_world (sample_file ''a.png'' ''image/png'' [1]) []) =
        Inr (JObject
          [(''prediction'', JString ''female''),
           (''confidence'', JFloat (9 / 10)),
           (''person_count'', JInt 1),
           (''probabilities'', JObject [(''male'', JFloat (9 / 10)), (''female'', JFloat (1 / 10))]),
           (''error'', JNull)])"
    by (simp add: sample_defs run_defs)
qed

theorem probabilities_by_position_witness:
  "fst (predict_gender sample_world (sample_file ''a.png'' ''image/png'' [1]) []) =
        Inr (JObject
          [(''prediction'', JString ''male''),
           (''confidence'', JFloat (9 / 10)),
           (''person_count'', JInt 1),
           (''probabilities'', JObject [(''male'', JFloat (9 / 10)), (''female'', JFloat (1 / 10))]),
           (''error'', JNull)])
   \<and> sample_world\<lparr>id2label := swapped_labels\<rparr> = swapped_world
   \<and> json_get (JObject
          [(''prediction'', JString ''female''),
           (''confidence'', JFloat (9 / 10)),
           (''person_count'', JInt 1),
           (''probabilities'', JObject [(''male'', JFloat (9 / 10)), (''female'', JFloat (1 / 10))]),
           (''error'', JNull)]) ''probabilities''
       = Some (JObject [(''male'', JFloat (9 / 10)), (''female'', JFloat (1 / 10))])"
proof -
  let ?f = "sample_file ''a.png'' ''image/png'' [1]"
  let ?body = "JObject
          [(''prediction'', JString ''male''),
           (''confidence'', JFloat (9 / 10)),
           (''person_count'', JInt 1),
           (''probabilities'', JObject [(''male'', JFloat (9 / 10)), (''female'', JFloat (1 / 10))]),
           (''error'', JNull)]"
  let ?body' = "JObject
          [(''prediction'', JString ''female''),
           (''confidence'', JFloat (9 / 10)),
           (''person_count'', JInt 1),
           (''probabilities'', JObject [(''male'', JFloat (9 / 10)), (''female'', JFloat (1 / 10))]),
           (''error'', JNull)]"
  have r: "fst (predict_gender sample_world ?f []) = Inr ?body"
    by (simp add: sample_defs run_defs)
  have n: "json_get ?body ''error'' = Some JNull" "json_get ?body' ''error'' = Some JNull" by simp_all
  have w: "sample_world\<lparr>id2label := swapped_labels\<rparr> = swapped_world"
    by (simp add: sample_world_def swapped_world_def sample_env_def)
  note t = probabilities_by_position [of sample_world ?f "[]"]
  from t have r': "fst (predict_gender swapped_world ?f []) = Inr ?body'" by blast
  from t r n(1) have "\<forall>labels body'.
            fst (predict_gender (sample_world\<lparr>id2label := labels\<rparr>) ?f []) = Inr body'
              \<and> json_get body' ''error'' = Some JNull \<longrightarrow>
            json_get body' ''probabilities'' = json_get ?body ''probabilities''"
    by blast
  with r' n(2) w have "json_get ?body' ''probabilities'' = json_get ?body ''probabilities''"
    by metis
  with r w show ?thesis by simp
qed

subsection \<open>The batch handler\<close>

lemma batch_item_try_fst:
  "fst (batch_item_try e file lg) = fst (batch_item_try e file lg')"
proof (cases "image_open e (contents file)")
  case (Inl ex)
  then show ?thesis
    by (simp add: batch_item_try_def content_type_startswith_def split: option.splits)
next
  case (Inr img)
  obtain n l1 where a: "count_people_in_image e img lg = (n, l1)" by (cases "count_people_in_image e img lg")
  obtain m l2 where b: "count_people_in_image e img lg' = (m, l2)" by (cases "count_people_in_image e img lg'")
  from a b count_people_fst [of e img lg lg'] have "m = n" by simp
  with Inr a b show ?thesis
    by (simp add: batch_item_try_def content_type_startswith_def split: option.splits)
qed

lemma batch_item_fst: "fst (batch_item e file lg) = fst (batch_item e file lg')"
proof -
  have "fst (batch_item e file l) =
          (case fst (batch_item_try e file l) of
             Inr entry \<Rightarrow> entry
           | Inl ex \<Rightarrow> JObject
               [(''filename'', JString (filename file)),
                (''error'', JString (str_exn ex)),
                (''prediction'', JNull),
                (''confidence'', JFloat 0)])" for l
    by (simp add: batch_item_def split: prod.splits sum.splits)
  then show ?thesis using batch_item_try_fst [of e "file" lg lg'] by simp
qed

lemma batch_loop_fst:
  "fst (batch_loop e files results lg) = results @ map (\<lambda>f. fst (batch_item e f [])) files"
proof (induction files arbitrary: results lg)
  case Nil
  then show ?case by simp
next
  case (Cons f files)
  obtain entry lg' where s: "batch_item e f lg = (entry, lg')" by (cases "batch_item e f lg")
  then have "entry = fst (batch_item e f [])" using batch_item_fst [of e f lg "[]"] by simp
  with s Cons.IH [of "results @ [entry]" lg'] show ?case by simp
qed

lemma predict_batch_results:
  assumes "length files \<le> 10"
  shows "fst (predict_batch e files lg) =
           Inr (JObject [(''results'', JArray (map (\<lambda>f. fst (batch_item e f [])) files))])"
proof -
  obtain results lg' where s: "batch_loop e files [] lg = (results, lg')"
    by (cases "batch_loop e files [] lg")
  then have "results = map (\<lambda>f. fst (batch_item e f [])) files"
    using batch_loop_fst [of e files "[]" lg] by simp
  with s assms show ?thesis by (simp add: predict_batch_def)
qed

lemma predict_batch_too_many:
  assumes "10 < length files"
  shows "predict_batch e files lg = (Inl (HTTPException 400 ''Maximum 10 images per batch''), lg)"
  using assms by (simp add: predict_batch_def)

lemma batch_item_filename:
  "json_get (fst (batch_item e file lg)) ''filename'' = Some (JString (filename file))"
proof (cases "image_open e (contents file)")
  case (Inl ex)
  then show ?thesis
    by (simp add: batch_item_def batch_item_try_def content_type_startswith_def
        split: option.splits)
next
  case (Inr img)
  obtain n l1 where a: "count_people_in_image e img lg = (n, l1)" by (cases "count_people_in_image e img lg")
  show ?thesis
  proof (cases "make_prediction e img")
    case (Inl ex)
    with Inr a show ?thesis
      by (simp add: batch_item_def batch_item_try_def content_type_startswith_def bind_exn_def
          split: option.splits)
  next
    case r: (Inr t)
    obtain ps l c where "t = (ps, l, c)" by (cases t)
    with r Inr a show ?thesis
      by (simp add: batch_item_def batch_item_try_def content_type_startswith_def bind_exn_def
          split: option.splits)
  qed
qed

lemma batch_item_other_count:
  assumes "content_type file = Some ct" and "startswith ct ''image/''"
    and "image_open e (contents file) = Inr img"
    and "fst (count_people_in_image e img lg) = n" and "n \<noteq> 1"
  shows "fst (batch_item e file lg) =
           JObject
             [(''filename'', JString (filename file)),
              (''error'', JString (''Expected 1 person, found '' @ str_nat n)),
              (''person_count'', JInt (int n)),
              (''prediction'', JNull),
              (''confidence'', JFloat 0)]"
  using assms
  by (cases "count_people_in_image e img lg")
    (simp add: batch_item_def batch_item_try_def content_type_startswith_def)

lemma batch_item_single:
  assumes "content_type file = Some ct" and "startswith ct ''image/''"
    and "image_open e (contents file) = Inr img"
    and "fst (count_people_in_image e img lg) = 1"
    and "make_prediction e img = Inr (ps, l, c)"
  shows "fst (batch_item e file lg) =
           JObject
             [(''filename'', JString (filename file)),
              (''prediction'', JString l),
              (''confidence'', JFloat c),
              (''person_count'', JInt 1),
              (''error'', JNull)]"
  using assms
  by (cases "count_people_in_image e img lg")
    (simp add: batch_item_def batch_item_try_def content_type_startswith_def bind_exn_def)

lemma batch_item_predicted:
  assumes "json_get (fst (batch_item e file lg)) ''prediction'' \<noteq> Some JNull"
  shows "\<exists>ct img. content_type file = Some ct \<and> startswith ct ''image/''
           \<and> image_open e (contents file) = Inr img
           \<and> fst (count_people_in_image e img lg) = 1"
proof -
  obtain ct where ct: "content_type file = Some ct" "startswith ct ''image/''"
    using assms
    by (cases "content_type file")
      (auto simp: batch_item_def batch_item_try_def content_type_startswith_def split: if_splits)
  obtain img where img: "image_open e (contents file) = Inr img"
    using assms ct
    by (cases "image_open e (contents file)")
      (auto simp: batch_item_def batch_item_try_def content_type_startswith_def)
  have "fst (count_people_in_image e img lg) = 1"
  proof (rule ccontr)
    assume "fst (count_people_in_image e img lg) \<noteq> 1"
    from batch_item_other_count [OF ct img refl this] assms show False by simp
  qed
  with ct img show ?thesis by blast
qed

lemmas batch_defs = predict_batch_def batch_item_def batch_item_try_def

subsection \<open>Claims about \<^verbatim>\<open>POST /predict-batch\<close>\<close>

text \<open>
  C5. For a batch of at most ten files the handler returns a results list with one entry
  per file, in the order of the files. Entry \<open>i\<close> is what file \<open>i\<close> alone produces, so no
  file's failure touches another entry, and it carries the file's name. A file that is an
  image, decodes and has a person count \<open>n \<noteq> 1\<close> gets the entry with error "Expected 1
  person, found n", person_count \<open>n\<close> and a null prediction; an entry has a prediction only
  if its file is an image, decodes and has a person count of exactly 1.
\<close>

theorem batch_one_entry_per_file:
  assumes "length files \<le> 10"
  shows "\<exists>results.
           fst (predict_batch e files lg) = Inr (JObject [(''results'', JArray results)])
           \<and> length results = length files
           \<and> (\<forall>i < length files.
                results ! i = fst (batch_item e (files ! i) [])
                \<and> json_get (results ! i) ''filename'' = Some (JString (filename (files ! i)))
                \<and> (\<forall>ct img n. content_type (files ! i) = Some ct \<and> startswith ct ''image/''
                       \<and> image_open e (contents (files ! i)) = Inr img
                       \<and> fst (count_people_in_image e img []) = n \<and> n \<noteq> 1 \<longrightarrow>
                     results ! i =
                       JObject
                         [(''filename'', JString (filename (files ! i))),
                          (''error'', JString (''Expected 1 person, found '' @ str_nat n)),
                          (''person_count'', JInt (int n)),
                          (''prediction'', JNull),
                          (''confidence'', JFloat 0)])
                \<and> (json_get (results ! i) ''prediction'' \<noteq> Some JNull \<longrightarrow>
                     (\<exists>ct img. content_type (files ! i) = Some ct \<and> startswith ct ''image/''
                        \<and> image_open e (contents (files ! i)) = Inr img
                        \<and> fst (count_people_in_image e img []) = 1)))"
proof -
  let ?results = "map (\<lambda>f. fst (batch_item e f [])) files"
  have r: "fst (predict_batch e files lg) = Inr (JObject [(''results'', JArray ?results)])"
    using assms by (rule predict_batch_results)
  have "\<forall>i < length files.
                ?results ! i = fst (batch_item e (files ! i) [])
                \<and> json_get (?results ! i) ''filename'' = Some (JString (filename (files ! i)))
                \<and> (\<forall>ct img n. content_type (files ! i) = Some ct \<and> startswith ct ''image/''
                       \<and> image_open e (contents (files ! i)) = Inr img
                       \<and> fst (count_people_in_image e img []) = n \<and> n \<noteq> 1 \<longrightarrow>
                     ?results ! i =
                       JObject
                         [(''filename'', JString (filename (files ! i))),
                          (''error'', JString (''Expected 1 person, found '' @ str_nat n)),
                          (''person_count'', JInt (int n)),
                          (''prediction'', JNull),
                          (''confidence'', JFloat 0)])
                \<and> (json_get (?results ! i) ''prediction'' \<noteq> Some JNull \<longrightarrow>
                     (\<exists>ct img. content_type (files ! i) = Some ct \<and> startswith ct ''image/''
                        \<and> image_open e (contents (files ! i)) = Inr img
                        \<and> fst (count_people_in_image e img []) = 1))"
  proof (intro allI impI conjI)
    fix i assume i: "i < length files"
    then show n: "?results ! i = fst (batch_item e (files ! i) [])" by simp
    show "json_get (?results ! i) ''filename'' = Some (JString (filename (files ! i)))"
      unfolding n by (rule batch_item_filename)
    show "json_get (?results ! i) ''prediction'' \<noteq> Some JNull \<Longrightarrow>
            \<exists>ct img. content_type (files ! i) = Some ct \<and> startswith ct ''image/''
                        \<and> image_open e (contents (files ! i)) = Inr img
                        \<and> fst (count_people_in_image e img []) = 1"
      unfolding n by (rule batch_item_predicted)
    fix ct img n'
    assume "content_type (files ! i) = Some ct \<and> startswith ct ''image/''
                       \<and> image_open e (contents (files ! i)) = Inr img
                       \<and> fst (count_people_in_image e img []) = n' \<and> n' \<noteq> 1"
    then show "?results ! i =
                       JObject
                         [(''filename'', JString (filename (files ! i))),
                          (''error'', JString (''Expected 1 person, found '' @ str_nat n')),
                          (''person_count'', JInt (int n')),
                          (''prediction'', JNull),
                          (''confidence'', JFloat 0)]"
      unfolding n using batch_item_other_count [of "files ! i" ct e img "[]" n'] by blast
  qed
  moreover have "length ?results = length files" by simp
  ultimately show ?thesis using r by blast
qed

theorem batch_one_entry_per_file_witness:
  "length [sample_file ''a.png'' ''image/png'' [1], sample_file ''b.png'' ''image/png'' [0]] \<le> 10
   \<and> fst (predict_batch sample_world
        [sample_file ''a.png'' ''image/png'' [1], sample_file ''b.png'' ''image/png'' [0]] []) =
       Inr (JObject [(''results'', JArray
         [JObject
            [(''filename'', JString ''a.png''),
             (''prediction'', JString ''male''),
             (''confidence'', JFloat (9 / 10)),
             (''person_count'', JInt 1),
             (''error'', JNull)],
          JObject
            [(''filename'', JString ''b.png''),
             (''error'', JString ''Expected 1 person, found 0''),
             (''person_count'', JInt 0),
             (''prediction'', JNull),
             (''confidence'', JFloat 0)]])])"
proof -
  let ?a = "sample_file ''a.png'' ''image/png'' [1]"
  let ?b = "sample_file ''b.png'' ''image/png'' [0]"
  have len: "length [?a, ?b] \<le> 10" by simp
  have ea: "fst (batch_item sample_world ?a []) =
          JObject
            [(''filename'', JString ''a.png''),
             (''prediction'', JString ''male''),
             (''confidence'', JFloat (9 / 10)),
             (''person_count'', JInt 1),
             (''error'', JNull)]"
    by (simp add: batch_defs sample_defs run_defs)
  have s0: "str_nat 0 = ''0''" by (simp add: str_nat.simps digit_char_def)
  have eb: "fst (batch_item sample_world ?b []) =
          JObject
            [(''filename'', JString ''b.png''),
             (''error'', JString ''Expected 1 person, found 0''),
             (''person_count'', JInt 0),
             (''prediction'', JNull),
             (''confidence'', JFloat 0)]"
    by (simp add: batch_defs sample_defs run_defs s0)
  from batch_one_entry_per_file [OF len, of sample_world "[]"] obtain results where
    r: "fst (predict_batch sample_world [?a, ?b] []) = Inr (JObject [(''results'', JArray results)])"
    and l: "length results = length [?a, ?b]"
    and i: "\<forall>i < length [?a, ?b]. results ! i = fst (batch_item sample_world ([?a, ?b] ! i) [])"
    by blast
  from i have "results ! 0 = fst (batch_item sample_world ?a [])" by (rule allE [where x = 0]) simp
  moreover from i have "results ! 1 = fst (batch_item sample_world ?b [])"
    by (rule allE [where x = 1]) simp
  moreover from l obtain x y where "results = [x, y]"
    by (cases results; cases "tl results") auto
  ultimately have "results = [fst (batch_item sample_world ?a []), fst (batch_item sample_world ?b [])]"
    by simp
  with r ea eb len show ?thesis by simp
qed

text \<open>
  C6. A batch of more than ten files is answered with status 400, whatever the files are:
  the body holds the detail "Maximum 10 images per batch" and no results list, and the log
  is unchanged. A batch of at most ten files is processed file by file and answered with
  status 200 and the results list.
\<close>

theorem batch_size_limit:
  "(10 < length files \<longrightarrow>
      predict_batch e files lg = (Inl (HTTPException 400 ''Maximum 10 images per batch''), lg)
      \<and> http_response (fst (predict_batch e files lg))
          = (400, JObject [(''detail'', JString ''Maximum 10 images per batch'')])
      \<and> json_get (snd (http_response (fst (predict_batch e files lg)))) ''results'' = None)
   \<and> (length files \<le> 10 \<longrightarrow>
        http_response (fst (predict_batch e files lg))
          = (200, JObject [(''results'', JArray (map (\<lambda>f. fst (batch_item e f [])) files))]))"
  by (simp add: predict_batch_too_many predict_batch_results)

theorem batch_size_limit_witness:
  "10 < length (replicate 11 (sample_file ''a.png'' ''image/png'' [1]))
   \<and> http_response (fst (predict_batch sample_world
         (replicate 11 (sample_file ''a.png'' ''image/png'' [1])) []))
       = (400, JObject [(''detail'', JString ''Maximum 10 images per batch'')])
   \<and> length (replicate 10 (sample_file ''a.png'' ''image/png'' [1])) \<le> 10
   \<and> http_response (fst (predict_batch sample_world
         (replicate 10 (sample_file ''a.png'' ''image/png'' [1])) []))
       = (200, JObject [(''results'', JArray (replicate 10
            (JObject
              [(''filename'', JString ''a.png''),
               (''prediction'', JString ''male''),
               (''confidence'', JFloat (9 / 10)),
               (''person_count'', JInt 1),
               (''error'', JNull)])))])"
proof -
  let ?a = "sample_file ''a.png'' ''image/png'' [1]"
  have ea: "fst (batch_item sample_world ?a []) =
          JObject
            [(''filename'', JString ''a.png''),
             (''prediction'', JString ''male''),
             (''confidence'', JFloat (9 / 10)),
             (''person_count'', JInt 1),
             (''error'', JNull)]"
    by (simp add: batch_defs sample_defs run_defs)
  have l: "10 < length (replicate 11 ?a)" "length (replicate 10 ?a) \<le> 10" by simp_all
  from batch_size_limit [of "replicate 11 ?a" sample_world "[]"] l(1)
  have 1: "http_response (fst (predict_batch sample_world (replicate 11 ?a) []))
       = (400, JObject [(''detail'', JString ''Maximum 10 images per batch'')])" by blast
  from batch_size_limit [of "replicate 10 ?a" sample_world "[]"] l(2)
  have "http_response (fst (predict_batch sample_world (replicate 10 ?a) []))
          = (200, JObject [(''results'', JArray (map (\<lambda>f. fst (batch_item sample_world f [])) (replicate 10 ?a)))])"
    by blast
  then have 2: "http_response (fst (predict_batch sample_world (replicate 10 ?a) []))
       = (200, JObject [(''results'', JArray (replicate 10 (fst (batch_item sample_world ?a []))))])"
    by (simp only: map_replicate)
  from 1 2 l show ?thesis unfolding ea by simp
qed

text \<open>
  C8, as stated, does not hold: the entry of a batch file with exactly one person carries
  no probabilities mapping, while the answer of \<^verbatim>\<open>/predict\<close> to the same file does.
\<close>

theorem batch_entry_probabilities_counterexample:
  "fst (count_people_in_image sample_world (sample_image [1]) []) = 1
   \<and> fst (predict_batch sample_world [sample_file ''a.png'' ''image/png'' [1]] []) =
       Inr (JObject [(''results'', JArray
         [JObject
            [(''filename'', JString ''a.png''),
             (''prediction'', JString ''male''),
             (''confidence'', JFloat (9 / 10)),
             (''person_count'', JInt 1),
             (''error'', JNull)]])])
   \<and> json_get (fst (batch_item sample_world (sample_file ''a.png'' ''image/png'' [1]) []))
        ''probabilities'' = None
   \<and> fst (predict_gender sample_world (sample_file ''a.png'' ''image/png'' [1]) []) =
        Inr (JObject
          [(''prediction'', JString ''male''),
           (''confidence'', JFloat (9 / 10)),
           (''person_count'', JInt 1),
           (''probabilities'', JObject [(''male'', JFloat (9 / 10)), (''female'', JFloat (1 / 10))]),
           (''error'', JNull)])"
proof -
  let ?a = "sample_file ''a.png'' ''image/png'' [1]"
  have ea: "fst (batch_item sample_world ?a []) =
          JObject
            [(''filename'', JString ''a.png''),
             (''prediction'', JString ''male''),
             (''confidence'', JFloat (9 / 10)),
             (''person_count'', JInt 1),
             (''error'', JNull)]"
    by (simp add: batch_defs sample_defs run_defs)
  have "length [?a] \<le> 10" by simp
  from predict_batch_results [OF this, of sample_world "[]"]
  have b: "fst (predict_batch sample_world [?a] []) =
       Inr (JObject [(''results'', JArray [fst (batch_item sample_world ?a [])])])"
    by simp
  have p: "fst (predict_gender sample_world ?a []) =
        Inr (JObject
          [(''prediction'', JString ''male''),
           (''confidence'', JFloat (9 / 10)),
           (''person_count'', JInt 1),
           (''probabilities'', JObject [(''male'', JFloat (9 / 10)), (''female'', JFloat (1 / 10))]),
           (''error'', JNull)])"
    by (simp add: sample_defs run_defs)
  from b p sample_count(2) show ?thesis unfolding ea by simp
qed

text \<open>
  C8, amended. For a batch file that is an image, decodes and has exactly one person, and
  whose classification succeeds with a label for every class, the entry consists of the
  file name, the label of a class of maximal probability as prediction, that probability
  as confidence, person_count 1 and a null error; it has no probabilities mapping.
\<close>

theorem batch_entry_single_person:
  assumes "content_type file = Some ct" and "startswith ct ''image/''"
    and "image_open e (contents file) = Inr img"
    and "fst (count_people_in_image e img lg) = 1"
    and "classifier e img = Inr ps"
    and "ps \<noteq> []"
    and "\<forall>k < length ps. id2label e k \<noteq> None"
  shows "\<exists>k l. k < length ps \<and> (\<forall>j < length ps. ps ! j \<le> ps ! k)
           \<and> id2label e k = Some l
           \<and> fst (batch_item e file lg) =
               JObject
                 [(''filename'', JString (filename file)),
                  (''prediction'', JString l),
                  (''confidence'', JFloat (ps ! k)),
                  (''person_count'', JInt 1),
                  (''error'', JNull)]
           \<and> json_get (fst (batch_item e file lg)) ''probabilities'' = None"
proof -
  let ?k = "first_index ps (Max (set ps))"
  note am = argmax_is_max [OF assms(6)]
  from am(1) assms(7) obtain l where l: "id2label e ?k = Some l" by auto
  from make_prediction_ok [OF assms(5,6) l]
  have mp: "make_prediction e img = Inr (ps, l, ps ! ?k)" by (simp add: am(2))
  note en = batch_item_single [OF assms(1-4) mp]
  have "json_get (fst (batch_item e file lg)) ''probabilities'' = None"
    unfolding en by simp
  with am(1) am(3) l en show ?thesis by blast
qed

theorem batch_entry_single_person_witness:
  "content_type (sample_file ''a.png'' ''image/png'' [1]) = Some ''image/png''
   \<and> startswith ''image/png'' ''image/''
   \<and> image_open sample_world (contents (sample_file ''a.png'' ''image/png'' [1]))
        = Inr (sample_image [1])
   \<and> fst (count_people_in_image sample_world (sample_image [1]) []) = 1
   \<and> classifier sample_world (sample_image [1]) = Inr [9 / 10, 1 / 10]
   \<and> id2label sample_world 0 = Some ''male'' \<and> id2label sample_world 1 = Some ''female''
   \<and> fst (batch_item sample_world (sample_file ''a.png'' ''image/png'' [1]) []) =
               JObject
                 [(''filename'', JString ''a.png''),
                  (''prediction'', JString ''male''),
                  (''confidence'', JFloat (9 / 10)),
                  (''person_count'', JInt 1),
                  (''error'', JNull)]"
proof -
  let ?f = "sample_file ''a.png'' ''image/png'' [1]"
  let ?ps = "[9 / 10, 1 / 10 :: rat]"
  have c: "content_type ?f = Some ''image/png''" by (rule sample_ctype)
  have i: "startswith ''image/png'' ''image/''" by (rule sample_ctype)
  have o: "image_open sample_world (contents ?f) = Inr (sample_image [1])" by (rule sample_open)
  have r: "classifier sample_world (sample_image [1]) = Inr ?ps"
    by (simp add: sample_classifier sample_row_def)
  have n: "?ps \<noteq> []" by simp
  have t: "id2label sample_world 0 = Some ''male''" "id2label sample_world 1 = Some ''female''"
    by (simp_all add: sample_defs)
  have t': "\<forall>k < length ?ps. id2label sample_world k \<noteq> None"
  proof (intro allI impI)
    fix k assume "k < length ?ps"
    then have "k = 0 \<or> k = 1" by auto
    with t show "id2label sample_world k \<noteq> None" by auto
  qed
  from batch_entry_single_person [OF c i o sample_count(2) r n t'] obtain k l where
    k: "k < length ?ps" and m: "\<forall>j < length ?ps. ?ps ! j \<le> ?ps ! k"
    and l: "id2label sample_world k = Some l"
    and en: "fst (batch_item sample_world ?f []) =
               JObject
                 [(''filename'', JString (filename ?f)),
                  (''prediction'', JString l),
                  (''confidence'', JFloat (?ps ! k)),
                  (''person_count'', JInt 1),
                  (''error'', JNull)]"
    by blast
  from k have "k = 0 \<or> k = 1" by auto
  moreover from m have "?ps ! 0 \<le> ?ps ! k" by (rule allE [where x = 0]) simp
  ultimately have k0: "k = 0" by auto
  with l t(1) have "l = ''male''" by simp
  with en k0 c i o sample_count(2) r t show ?thesis by (simp add: sample_file_def)
qed

end
